theory Spec2Isabelle
  imports Complex_Main "HOL-Library.Word" "HOL-Library.Sublist"
begin

section \<open>JavaScript numbers\<close>

text \<open>
  The scoring engine of \<^verbatim>\<open>src/lib/file-utils.ts\<close> computes with JavaScript numbers.
  A finite number is modelled by the real it denotes; \<open>NaN\<close> is a value of its own,
  because the program can produce it (\<open>0 / 0\<close> in \<open>analyzeBuffer\<close>) and every operator
  then propagates it, while every comparison with it is false. The rounding of the
  scores' arithmetic is left out; the rounding of the generator's integer arithmetic,
  which changes its states, is modelled exactly (section on the seeded generator).
\<close>

datatype jsnum = Num real | NaN

instantiation jsnum :: "{plus, minus, times, abs, ord}"
begin

fun plus_jsnum :: "jsnum \<Rightarrow> jsnum \<Rightarrow> jsnum" where
  "plus_jsnum (Num a) (Num b) = Num (a + b)"
| "plus_jsnum _ _ = NaN"

fun minus_jsnum :: "jsnum \<Rightarrow> jsnum \<Rightarrow> jsnum" where
  "minus_jsnum (Num a) (Num b) = Num (a - b)"
| "minus_jsnum _ _ = NaN"

fun times_jsnum :: "jsnum \<Rightarrow> jsnum \<Rightarrow> jsnum" where
  "times_jsnum (Num a) (Num b) = Num (a * b)"
| "times_jsnum _ _ = NaN"

fun abs_jsnum :: "jsnum \<Rightarrow> jsnum" where
  "abs_jsnum (Num a) = Num \<bar>a\<bar>"
| "abs_jsnum NaN = NaN"

fun less_jsnum :: "jsnum \<Rightarrow> jsnum \<Rightarrow> bool" where
  "less_jsnum (Num a) (Num b) = (a < b)"
| "less_jsnum _ _ = False"

fun less_eq_jsnum :: "jsnum \<Rightarrow> jsnum \<Rightarrow> bool" where
  "less_eq_jsnum (Num a) (Num b) = (a \<le> b)"
| "less_eq_jsnum _ _ = False"

instance ..

end

text \<open>\<^verbatim>\<open>Math.min\<close> and \<^verbatim>\<open>Math.max\<close> return \<open>NaN\<close> as soon as one argument is \<open>NaN\<close>.\<close>

fun Math_min :: "jsnum \<Rightarrow> jsnum \<Rightarrow> jsnum" where
  "Math_min (Num a) (Num b) = Num (min a b)"
| "Math_min _ _ = NaN"

fun Math_max :: "jsnum \<Rightarrow> jsnum \<Rightarrow> jsnum" where
  "Math_max (Num a) (Num b) = Num (max a b)"
| "Math_max _ _ = NaN"

text \<open>
  Division of two finite numbers. \<open>0 / 0\<close> is \<open>NaN\<close>. A non-zero numerator over zero
  would be an infinity, which this model does not have: the one division of the program
  whose divisor can be zero divides a count of header bytes by the number of header bytes
  (lemma \<open>anomalyCount_le\<close> below), so the numerator is zero whenever the divisor is.
\<close>

definition js_div :: "real \<Rightarrow> real \<Rightarrow> jsnum" where
  "js_div a b = (if a = 0 \<and> b = 0 then NaN else Num (a / b))"

section \<open>Media category\<close>

type_synonym byte = "8 word"

datatype category = Image | Video | Audio | Unknown

definition getMediaCategory :: "string \<Rightarrow> category" where
  "getMediaCategory mimeType =
     (if prefix ''image/'' mimeType then Image
      else if prefix ''video/'' mimeType then Video
      else if prefix ''audio/'' mimeType then Audio
      else Unknown)"

section \<open>Byte statistics\<close>

record ByteStats =
  entropy :: real
  uniformity :: real
  headerAnomaly :: jsnum

text \<open>The histogram loop: \<^verbatim>\<open>freq[buffer[i]]++\<close> for each byte of the window.\<close>

fun histogram :: "byte list \<Rightarrow> nat list \<Rightarrow> nat list" where
  "histogram [] freq = freq"
| "histogram (b # bs) freq = histogram bs (freq[unat b := freq ! unat b + 1])"

text \<open>The entropy loop over the 256 buckets, in index order.\<close>

definition shannon :: "nat list \<Rightarrow> nat \<Rightarrow> real" where
  "shannon freq len =
     foldl (\<lambda>e c. if c > 0 then e - (real c / real len) * log 2 (real c / real len) else e)
       0 freq"

definition anomalyCount :: "byte list \<Rightarrow> nat" where
  "anomalyCount headerBytes = length (filter (\<lambda>b. b = 0xff \<or> b = 0x00) headerBytes)"

definition analyzeBuffer :: "byte list \<Rightarrow> ByteStats" where
  "analyzeBuffer buffer =
     (let len = min (length buffer) 65536;
          freq = histogram (take len buffer) (replicate 256 0);
          normalizedEntropy = shannon freq len / 8;
          firstBlock = take (min 4096 (length buffer)) buffer;
          uniqueBytes = card (set firstBlock);
          headerBytes = take 64 buffer
      in \<lparr> entropy = normalizedEntropy,
           uniformity = real uniqueBytes / 256,
           headerAnomaly = js_div (real (anomalyCount headerBytes)) (real (length headerBytes)) \<rparr>)"

definition calculateVariance :: "byte list \<Rightarrow> real" where
  "calculateVariance buffer =
     (if length buffer = 0 then 0
      else let mean = real (sum_list (map unat buffer)) / real (length buffer);
               variance = sum_list (map (\<lambda>b. (real (unat b) - mean)\<^sup>2) buffer)
           in variance / real (length buffer))"

section \<open>The seeded generator\<close>

text \<open>
  \<^verbatim>\<open>rng = (rng * 1103515245 + 12345) & 0x7fffffff\<close> is evaluated on doubles: the product
  and the sum are each rounded to the nearest double (53 significant bits, ties to even)
  before \<^verbatim>\<open>&\<close> converts the result to a 32-bit integer and masks 31 bits of it.
  On non-negative integers this rounding is exact integer arithmetic.
\<close>

function excess_bits :: "nat \<Rightarrow> nat" where
  "excess_bits n = (if n < 2 ^ 53 then 0 else Suc (excess_bits (n div 2)))"
  by pat_completeness auto
termination
  by (relation "measure (\<lambda>n. n)") auto

declare excess_bits.simps [simp del]

definition round_double :: "nat \<Rightarrow> nat" where
  "round_double n =
     (let e = excess_bits n; q = n div 2 ^ e; r = n mod 2 ^ e
      in if 2 * r > 2 ^ e \<or> (2 * r = 2 ^ e \<and> odd q) then (q + 1) * 2 ^ e else q * 2 ^ e)"

text \<open>The state \<open>rng\<close> is an integer, or \<open>NaN\<close> (\<open>None\<close>) when the seed was.\<close>

definition lcg :: "nat option \<Rightarrow> nat" where
  "lcg rng = (case rng of
       None \<Rightarrow> 0
     | Some r \<Rightarrow> round_double (round_double (r * 1103515245) + 12345) mod 2 ^ 31)"

definition nextRandom :: "nat option \<Rightarrow> nat option \<times> real" where
  "nextRandom rng = (let rng' = lcg rng in (Some rng', real rng' / 2147483647))"

section \<open>Visualization generators\<close>

text \<open>
  Each generator owns a closure \<^verbatim>\<open>nextRandom\<close> over its variable \<open>rng\<close>; here the state
  is passed along. \<^verbatim>\<open>Math.sin\<close>, \<^verbatim>\<open>Math.sqrt\<close> and \<^verbatim>\<open>Math.floor\<close> are the real functions.
\<close>

fun Math_sin :: "jsnum \<Rightarrow> jsnum" where
  "Math_sin (Num a) = Num (sin a)"
| "Math_sin NaN = NaN"

fun heatmap_row ::
  "int \<Rightarrow> int \<Rightarrow> jsnum \<Rightarrow> nat \<Rightarrow> nat list \<Rightarrow> nat option \<Rightarrow> jsnum list \<times> nat option" where
  "heatmap_row cx cy manipulationLevel i [] rng = ([], rng)"
| "heatmap_row cx cy manipulationLevel i (j # js) rng =
     (let dist = sqrt ((real j - real_of_int cx)\<^sup>2 + (real i - real_of_int cy)\<^sup>2);
          base = Num (max 0 (1 - dist / 5)) * manipulationLevel;
          (rng1, u) = nextRandom rng;
          cell = Math_min (Num 1) (base + Num (u * 0.2));
          (row, rng2) = heatmap_row cx cy manipulationLevel i js rng1
      in (cell # row, rng2))"

fun heatmap_rows :: "int \<Rightarrow> int \<Rightarrow> jsnum \<Rightarrow> nat list \<Rightarrow> nat option \<Rightarrow> jsnum list list" where
  "heatmap_rows cx cy manipulationLevel [] rng = []"
| "heatmap_rows cx cy manipulationLevel (i # is) rng =
     (let (row, rng1) = heatmap_row cx cy manipulationLevel i [0..<12] rng
      in row # heatmap_rows cx cy manipulationLevel is rng1)"

definition generateHeatmap :: "nat option \<Rightarrow> jsnum \<Rightarrow> jsnum list list" where
  "generateHeatmap seed manipulationLevel =
     (let rng = seed;
          (rng1, u1) = nextRandom rng;
          cx = \<lfloor>u1 * 12\<rfloor>;
          (rng2, u2) = nextRandom rng1;
          cy = \<lfloor>u2 * 8\<rfloor>
      in heatmap_rows cx cy manipulationLevel [0..<8] rng2)"

fun waveform_points :: "int \<Rightarrow> int \<Rightarrow> jsnum \<Rightarrow> nat list \<Rightarrow> nat option \<Rightarrow> jsnum list" where
  "waveform_points anomalyStart anomalyEnd anomalyLevel [] rng = []"
| "waveform_points anomalyStart anomalyEnd anomalyLevel (i # is) rng =
     (let base = sin (real i * 0.3) * 0.4;
          (rng1, u) = nextRandom rng;
          noise = (u - 0.5) * 0.3;
          spike = (if int i > anomalyStart \<and> int i < anomalyEnd
                   then anomalyLevel * Num 0.4 else Num 0)
      in \<bar>Num (base + noise) + spike\<bar>
           # waveform_points anomalyStart anomalyEnd anomalyLevel is rng1)"

definition generateWaveform :: "nat option \<Rightarrow> jsnum \<Rightarrow> jsnum list" where
  "generateWaveform seed anomalyLevel =
     (let rng = map_option (\<lambda>s. s + 42) seed;
          (rng1, u1) = nextRandom rng;
          anomalyStart = \<lfloor>u1 * 20\<rfloor> + 20;
          (rng2, u2) = nextRandom rng1;
          anomalyEnd = anomalyStart + \<lfloor>u2 * 8\<rfloor> + 4
      in waveform_points anomalyStart anomalyEnd anomalyLevel [0..<60] rng2)"

record corr_point =
  time :: nat
  visualLevel :: jsnum
  audioLevel :: jsnum

fun correlation_points :: "int \<Rightarrow> jsnum \<Rightarrow> nat list \<Rightarrow> nat option \<Rightarrow> corr_point list" where
  "correlation_points desyncPoint syncQuality [] rng = []"
| "correlation_points desyncPoint syncQuality (t # ts) rng =
     (let (rng1, u1) = nextRandom rng;
          visual = 0.5 + sin (real t * 0.2) * 0.3 + (u1 - 0.5) * 0.1;
          audioOffset = (if int t > desyncPoint then (Num 1 - syncQuality) * Num 0.3 else Num 0);
          (rng2, u2) = nextRandom rng1;
          audio = Num 0.5 + Math_sin (Num (real t * 0.2) + audioOffset) * Num 0.3
                    + Num ((u2 - 0.5) * 0.1)
      in \<lparr> time = t,
           visualLevel = Math_max (Num 0) (Math_min (Num 1) (Num visual)),
           audioLevel = Math_max (Num 0) (Math_min (Num 1) audio) \<rparr>
           # correlation_points desyncPoint syncQuality ts rng2)"

definition generateCorrelation :: "nat option \<Rightarrow> jsnum \<Rightarrow> corr_point list" where
  "generateCorrelation seed syncQuality =
     (let rng = map_option (\<lambda>s. s + 99) seed;
          (rng1, u1) = nextRandom rng;
          desyncPoint = \<lfloor>u1 * 15\<rfloor> + 10
      in correlation_points desyncPoint syncQuality [0..<30] rng1)"

section \<open>Content hash\<close>

text \<open>
  \<open>computeHash\<close> hex-encodes the SHA-256 digest of the buffer. The digest function
  belongs to the runtime's \<^verbatim>\<open>crypto\<close> library, not to the repository: it is the
  parameter \<open>sha256\<close>, from bytes to digest bytes. \<open>parseInt16\<close> is
  \<^verbatim>\<open>parseInt(s, 16)\<close> on the strings a hex encoding yields: the value of the longest
  prefix of hexadecimal digits, \<open>NaN\<close> (\<open>None\<close>) when that prefix is empty.
\<close>

definition hex_byte :: "byte \<Rightarrow> string" where
  "hex_byte b = [''0123456789abcdef'' ! (unat b div 16), ''0123456789abcdef'' ! (unat b mod 16)]"

definition computeHash :: "(byte list \<Rightarrow> byte list) \<Rightarrow> byte list \<Rightarrow> string" where
  "computeHash sha256 buffer = concat (map hex_byte (sha256 buffer))"

definition hexval :: "char \<Rightarrow> nat option" where
  "hexval c =
     (let k = (of_char c :: nat)
      in if 48 \<le> k \<and> k \<le> 57 then Some (k - 48)
         else if 97 \<le> k \<and> k \<le> 102 then Some (k - 87)
         else if 65 \<le> k \<and> k \<le> 70 then Some (k - 55)
         else None)"

definition parseInt16 :: "string \<Rightarrow> nat option" where
  "parseInt16 s =
     (let digits = List.map_filter hexval (takeWhile (\<lambda>c. hexval c \<noteq> None) s)
      in if digits = [] then None else Some (foldl (\<lambda>n d. 16 * n + d) 0 digits))"

section \<open>The analysis\<close>

datatype verdict = Authentic | Manipulated | Suspicious

record artifact =
  region :: string
  severity :: jsnum

record visual_part =
  v_score :: jsnum
  artifacts :: "artifact list"
  heatmapData :: "jsnum list list"

record audio_part =
  a_score :: jsnum
  spectralAnomaly :: jsnum
  waveformData :: "jsnum list"

record crossModal_part =
  syncScore :: jsnum
  correlationData :: "corr_point list"

record blockchain_part =
  found :: bool
  hash :: string
  originalUploader :: "string option"
  timestamp :: "string option"
  chainValid :: bool

text \<open>
  The result record, without its \<open>explanation\<close> string (a template filled with
  formatted numbers, read by nothing).
\<close>

record AnalysisResult =
  verdict :: verdict
  confidence :: jsnum
  visual :: visual_part
  audio :: audio_part
  crossModal :: crossModal_part
  blockchain :: blockchain_part
  processingTime :: int

text \<open>The registry \<open>KNOWN_HASHES\<close>: a map from content hash to uploader and timestamp.\<close>

record entry =
  uploader :: string
  registeredAt :: string

type_synonym registry = "string \<rightharpoonup> entry"

text \<open>
  What a call reads from its environment: the draw of \<^verbatim>\<open>Math.random()\<close>, the two
  readings of \<^verbatim>\<open>Date.now()\<close> and the string of \<^verbatim>\<open>new Date().toISOString()\<close>.
\<close>

record env =
  random :: real
  startTime :: int
  endTime :: int
  isoTime :: string

definition visualScore_of :: "category \<Rightarrow> nat \<Rightarrow> ByteStats \<Rightarrow> jsnum" where
  "visualScore_of cat bufferLength st =
     (if cat = Image then
        let compressionRatio = real bufferLength / (1920 * 1080 * 3);
            ganIndicator = (if entropy st > 0.95 \<and> uniformity st > 0.7 then 0.3 else 0)
        in Math_min (Num 1)
             (Math_max (Num 0)
                (Num ganIndicator + headerAnomaly st * Num 0.4
                   + Num ((1 - compressionRatio) * 0.1)))
      else if cat = Video then
        Math_min (Num 1)
          (Math_max (Num 0)
             (headerAnomaly st * Num 0.5 + Num (if entropy st > 0.97 then 0.2 else 0)
                + Num (uniformity st * 0.1)))
      else Num 0.05)"

definition audioScores :: "category \<Rightarrow> byte list \<Rightarrow> ByteStats \<Rightarrow> jsnum \<times> jsnum" where
  "audioScores cat buffer st =
     (if cat = Audio \<or> cat = Video then
        let variance = calculateVariance (take (min 8192 (length buffer)) buffer);
            ttsIndicator = (if variance < 50 then 0.3 else 0);
            audioScore =
              Math_min (Num 1)
                (Math_max (Num 0)
                   (Num ttsIndicator + headerAnomaly st * Num 0.3
                      + Num (if entropy st > 0.98 then 0.15 else 0)));
            spectral =
              Math_min (Num 1)
                (Math_max (Num 0)
                   (audioScore * Num 0.8 + Num (if uniformity st > 0.8 then 0.2 else 0)))
        in (audioScore, spectral)
      else (Num 0.05, Num 0.03))"

definition syncScore_of :: "category \<Rightarrow> jsnum \<Rightarrow> jsnum \<Rightarrow> jsnum \<Rightarrow> real \<Rightarrow> jsnum" where
  "syncScore_of cat visualScore audioScore headerAnom rnd =
     (let sync = (if cat = Video
                  then Num 1 - (visualScore * Num 0.3 + audioScore * Num 0.3 + headerAnom * Num 0.2)
                  else Num (0.9 + rnd * 0.08))
      in Math_max (Num 0) (Math_min (Num 1) sync))"

definition weightedScore_of ::
  "category \<Rightarrow> jsnum \<Rightarrow> jsnum \<Rightarrow> jsnum \<Rightarrow> jsnum \<Rightarrow> jsnum \<Rightarrow> bool \<Rightarrow> jsnum" where
  "weightedScore_of cat visualScore audioScore spectral sync headerAnom provenanceFound =
     (if cat = Video then
        visualScore * Num 0.35 + audioScore * Num 0.3 + (Num 1 - sync) * Num 0.2
          + Num (if provenanceFound then - 0.15 else 0.1)
      else if cat = Audio then
        audioScore * Num 0.6 + spectral * Num 0.25
          + Num (if provenanceFound then - 0.15 else 0.1)
      else
        visualScore * Num 0.6 + headerAnom * Num 0.2
          + Num (if provenanceFound then - 0.15 else 0.1))"

definition classify :: "jsnum \<Rightarrow> verdict \<times> jsnum" where
  "classify weightedScore =
     (let (v, c) =
            (if weightedScore < Num 0.25 then
               (Authentic, Num 0.85 + (Num 0.25 - weightedScore) * Num 0.4)
             else if weightedScore > Num 0.5 then
               (Manipulated, Num 0.7 + (weightedScore - Num 0.5) * Num 0.5)
             else
               (Suspicious, Num 0.5 + \<bar>weightedScore - Num 0.375\<bar> * Num 0.3))
      in (v, Math_min (Num 0.99) (Math_max (Num 0.4) c)))"

definition artifacts_of :: "verdict \<Rightarrow> jsnum \<Rightarrow> jsnum \<Rightarrow> real \<Rightarrow> artifact list" where
  "artifacts_of v visualScore headerAnom entr =
     (if v \<noteq> Authentic then
        (if visualScore > Num 0.3
         then [\<lparr> region = ''Facial region / Jawline'',
                  severity = Math_min (Num 1) (visualScore * Num 1.2) \<rparr>]
         else [])
        @ (if visualScore > Num 0.4
           then [\<lparr> region = ''Eye reflection consistency'',
                    severity = Math_min (Num 1) (visualScore * Num 0.8) \<rparr>]
           else [])
        @ (if headerAnom > Num 0.4
           then [\<lparr> region = ''File header / Metadata'',
                    severity = Math_min (Num 1) headerAnom \<rparr>]
           else [])
        @ (if entr > 0.95
           then [\<lparr> region = ''Compression artifacts'',
                    severity = Math_min (Num 1) (Num ((entr - 0.9) * 5)) \<rparr>]
           else [])
      else [])"

text \<open>The local variables of \<open>analyzeFile\<close> up to the verdict.\<close>

record locals =
  l_category :: category
  l_fileHash :: string
  l_hashSeed :: "nat option"
  l_stats :: ByteStats
  l_visualScore :: jsnum
  l_audioScore :: jsnum
  l_spectralAnomaly :: jsnum
  l_syncScore :: jsnum
  l_knownEntry :: "entry option"
  l_provenanceFound :: bool
  l_weightedScore :: jsnum
  l_verdict :: verdict
  l_confidence :: jsnum

definition analyzeFile_locals ::
  "(byte list \<Rightarrow> byte list) \<Rightarrow> env \<Rightarrow> registry \<Rightarrow> byte list \<Rightarrow> string \<Rightarrow> locals" where
  "analyzeFile_locals sha256 e KNOWN_HASHES buffer mimeType =
     (let cat = getMediaCategory mimeType;
          fileHash = computeHash sha256 buffer;
          hashSeed = parseInt16 (take 8 fileHash);
          st = analyzeBuffer buffer;
          visualScore = visualScore_of cat (length buffer) st;
          (audioScore, spectral) = audioScores cat buffer st;
          sync = syncScore_of cat visualScore audioScore (headerAnomaly st) (random e);
          knownEntry = KNOWN_HASHES fileHash;
          provenanceFound = (knownEntry \<noteq> None);
          weightedScore =
            weightedScore_of cat visualScore audioScore spectral sync (headerAnomaly st)
              provenanceFound;
          (v, c) = classify weightedScore
      in \<lparr> l_category = cat, l_fileHash = fileHash, l_hashSeed = hashSeed, l_stats = st,
           l_visualScore = visualScore, l_audioScore = audioScore,
           l_spectralAnomaly = spectral, l_syncScore = sync, l_knownEntry = knownEntry,
           l_provenanceFound = provenanceFound, l_weightedScore = weightedScore,
           l_verdict = v, l_confidence = c \<rparr>)"

definition analyzeFile ::
  "(byte list \<Rightarrow> byte list) \<Rightarrow> env \<Rightarrow> registry \<Rightarrow> byte list \<Rightarrow> string \<Rightarrow> string
     \<Rightarrow> AnalysisResult \<times> registry" where
  "analyzeFile sha256 e KNOWN_HASHES buffer fileName mimeType =
     (let l = analyzeFile_locals sha256 e KNOWN_HASHES buffer mimeType;
          arts = artifacts_of (l_verdict l) (l_visualScore l) (headerAnomaly (l_stats l))
                   (entropy (l_stats l));
          elapsed = endTime e - startTime e;
          KNOWN_HASHES' =
            (if l_verdict l = Authentic
             then KNOWN_HASHES(l_fileHash l \<mapsto>
                    \<lparr> uploader = ''DeepTrust User'', registeredAt = isoTime e \<rparr>)
             else KNOWN_HASHES)
      in (\<lparr> verdict = l_verdict l,
            confidence = l_confidence l,
            visual = \<lparr> v_score = l_visualScore l, artifacts = arts,
                       heatmapData = generateHeatmap (l_hashSeed l) (l_visualScore l) \<rparr>,
            audio = \<lparr> a_score = l_audioScore l, spectralAnomaly = l_spectralAnomaly l,
                      waveformData = generateWaveform (l_hashSeed l) (l_audioScore l) \<rparr>,
            crossModal = \<lparr> syncScore = l_syncScore l,
                           correlationData = generateCorrelation (l_hashSeed l) (l_syncScore l) \<rparr>,
            blockchain = \<lparr> found = l_provenanceFound l,
                           hash = ''sha256:'' @ take 32 (l_fileHash l),
                           originalUploader = map_option uploader (l_knownEntry l),
                           timestamp = map_option registeredAt (l_knownEntry l),
                           chainValid = l_provenanceFound l \<rparr>,
            processingTime = max elapsed 200 \<rparr>,
          KNOWN_HASHES'))"

section \<open>The specification's formulas\<close>

text \<open>
  The recurrence the specification names for the generators, in exact integer
  arithmetic: \<open>seed = (seed * 1103515245 + 12345) mod 2^31\<close>.
\<close>

definition exact_lcg :: "nat \<Rightarrow> nat" where
  "exact_lcg seed = (seed * 1103515245 + 12345) mod 2 ^ 31"

text \<open>The confidence of a verdict at a finite weighted score, as the specification gives it.\<close>

definition confidence_spec :: "verdict \<Rightarrow> real \<Rightarrow> real" where
  "confidence_spec v w =
     min 0.99 (max 0.4
       (case v of
          Authentic \<Rightarrow> 0.85 + (0.25 - w) * 0.4
        | Manipulated \<Rightarrow> 0.7 + (w - 0.5) * 0.5
        | Suspicious \<Rightarrow> 0.5 + \<bar>w - 0.375\<bar> * 0.3))"

text \<open>
  The artifact list as the specification gives it: nothing for an authentic verdict,
  otherwise the four conditional entries in order, the header entry with the header
  anomaly itself as its severity.
\<close>

definition artifacts_spec :: "verdict \<Rightarrow> jsnum \<Rightarrow> jsnum \<Rightarrow> real \<Rightarrow> artifact list" where
  "artifacts_spec v visualScore headerAnom entr =
     (if v = Authentic then []
      else
        (if visualScore > Num 0.3
         then [\<lparr> region = ''Facial region / Jawline'',
                  severity = Math_min (Num 1) (visualScore * Num 1.2) \<rparr>]
         else [])
        @ (if visualScore > Num 0.4
           then [\<lparr> region = ''Eye reflection consistency'',
                    severity = Math_min (Num 1) (visualScore * Num 0.8) \<rparr>]
           else [])
        @ (if headerAnom > Num 0.4
           then [\<lparr> region = ''File header / Metadata'', severity = headerAnom \<rparr>]
           else [])
        @ (if entr > 0.95
           then [\<lparr> region = ''Compression artifacts'',
                    severity = Num (min 1 ((entr - 0.9) * 5)) \<rparr>]
           else []))"

text \<open>Membership of a number in a closed interval; \<open>NaN\<close> is in none.\<close>

definition in_range :: "real \<Rightarrow> real \<Rightarrow> jsnum \<Rightarrow> bool" where
  "in_range lo hi x = (Num lo \<le> x \<and> x \<le> Num hi)"

section \<open>Example inputs\<close>

text \<open>
  A buffer of 267 bytes: twelve zero bytes, then every byte value from \<open>0x01\<close> to
  \<open>0xff\<close> once.
\<close>

definition padded_ramp :: "byte list" where
  "padded_ramp = replicate 12 0x00 @ map of_nat [1..<256]"

text \<open>
  The SHA-256 digests of the three buffers the examples below use: the single byte
  \<open>0x01\<close>, the three bytes of \<open>abc\<close> and \<open>padded_ramp\<close>.
\<close>

definition sha256_examples :: "byte list \<Rightarrow> byte list" where
  "sha256_examples b =
     (if b = [0x01] then
        [0x4b, 0xf5, 0x12, 0x2f, 0x34, 0x45, 0x54, 0xc5, 0x3b, 0xde, 0x2e, 0xbb, 0x8c, 0xd2,
         0xb7, 0xe3, 0xd1, 0x60, 0x0a, 0xd6, 0x31, 0xc3, 0x85, 0xa5, 0xd7, 0xcc, 0xe2, 0x3c,
         0x77, 0x85, 0x45, 0x9a]
      else if b = [0x61, 0x62, 0x63] then
        [0xba, 0x78, 0x16, 0xbf, 0x8f, 0x01, 0xcf, 0xea, 0x41, 0x41, 0x40, 0xde, 0x5d, 0xae,
         0x22, 0x23, 0xb0, 0x03, 0x61, 0xa3, 0x96, 0x17, 0x7a, 0x9c, 0xb4, 0x10, 0xff, 0x61,
         0xf2, 0x00, 0x15, 0xad]
      else if b = padded_ramp then
        [0xae, 0xb0, 0x80, 0xba, 0xc7, 0x44, 0x51, 0xb8, 0x42, 0xb9, 0x99, 0x6b, 0xc7, 0x2a,
         0x0d, 0xc1, 0x5b, 0xb6, 0xde, 0x16, 0x47, 0x96, 0x34, 0x67, 0x4f, 0xb0, 0x1d, 0xfd,
         0x4d, 0x4b, 0x63, 0x32]
      else [])"

definition env_example :: "real \<Rightarrow> string \<Rightarrow> env" where
  "env_example r stamp = \<lparr> random = r, startTime = 0, endTime = 3, isoTime = stamp \<rparr>"

section \<open>Reading the result of a call\<close>

lemma anomalyCount_le: "anomalyCount headerBytes \<le> length headerBytes"
  by (simp add: anomalyCount_def)

lemma shannon_zero_buckets: "shannon (replicate n 0) len = 0"
proof -
  have "foldl (\<lambda>e c. if c > 0 then e - (real c / real len) * log 2 (real c / real len) else e)
          a (replicate n (0::nat)) = a" for a
    by (induction n) simp_all
  then show ?thesis by (simp add: shannon_def)
qed

lemma analyzeBuffer_empty:
  "analyzeBuffer [] = \<lparr> entropy = 0, uniformity = 0, headerAnomaly = NaN \<rparr>"
  by (simp add: analyzeBuffer_def shannon_zero_buckets anomalyCount_def js_div_def)

lemma headerAnomaly_eq:
  "headerAnomaly (analyzeBuffer buffer) =
     js_div (real (anomalyCount (take 64 buffer))) (real (length (take 64 buffer)))"
  by (simp add: analyzeBuffer_def Let_def)

lemma anomaly_fraction_unit:
  assumes "js_div (real (anomalyCount hb)) (real (length hb)) = Num h"
  shows "0 \<le> h \<and> h \<le> 1"
proof -
  have le: "anomalyCount hb \<le> length hb"
    by (rule anomalyCount_le)
  have pos: "length hb \<noteq> 0"
  proof
    assume z: "length hb = 0"
    with le have "anomalyCount hb = 0" by linarith
    with z assms show False by (simp add: js_div_def)
  qed
  from assms have h: "h = real (anomalyCount hb) / real (length hb)"
    by (auto simp: js_div_def split: if_splits)
  from pos have "0 < real (length hb)" by simp
  moreover from le have "real (anomalyCount hb) \<le> real (length hb)" by linarith
  ultimately show ?thesis unfolding h by (simp add: divide_le_eq_1)
qed

lemma headerAnomaly_unit:
  "headerAnomaly (analyzeBuffer buffer) = Num h \<Longrightarrow> 0 \<le> h \<and> h \<le> 1"
  unfolding headerAnomaly_eq by (rule anomaly_fraction_unit)

lemma headerAnomaly_nonempty:
  assumes "buffer \<noteq> []"
  shows "\<exists>h. headerAnomaly (analyzeBuffer buffer) = Num h"
proof -
  from assms have "length (take 64 buffer) \<noteq> 0" by (cases buffer) simp_all
  then show ?thesis by (simp add: headerAnomaly_eq js_div_def)
qed

lemma locals_stats: "l_stats (analyzeFile_locals sha256 e reg buffer mimeType) = analyzeBuffer buffer"
  by (simp add: analyzeFile_locals_def Let_def case_prod_beta)

lemma locals_category:
  "l_category (analyzeFile_locals sha256 e reg buffer mimeType) = getMediaCategory mimeType"
  by (simp add: analyzeFile_locals_def Let_def case_prod_beta)

lemma locals_fileHash:
  "l_fileHash (analyzeFile_locals sha256 e reg buffer mimeType) = computeHash sha256 buffer"
  by (simp add: analyzeFile_locals_def Let_def case_prod_beta)

lemma locals_hashSeed:
  "l_hashSeed (analyzeFile_locals sha256 e reg buffer mimeType) =
     parseInt16 (take 8 (computeHash sha256 buffer))"
  by (simp add: analyzeFile_locals_def Let_def case_prod_beta)

lemma locals_visualScore:
  "l_visualScore (analyzeFile_locals sha256 e reg buffer mimeType) =
     visualScore_of (getMediaCategory mimeType) (length buffer) (analyzeBuffer buffer)"
  by (simp add: analyzeFile_locals_def Let_def case_prod_beta)

lemma locals_audioScore:
  "l_audioScore (analyzeFile_locals sha256 e reg buffer mimeType) =
     fst (audioScores (getMediaCategory mimeType) buffer (analyzeBuffer buffer))"
  by (simp add: analyzeFile_locals_def Let_def case_prod_beta)

lemma locals_spectralAnomaly:
  "l_spectralAnomaly (analyzeFile_locals sha256 e reg buffer mimeType) =
     snd (audioScores (getMediaCategory mimeType) buffer (analyzeBuffer buffer))"
  by (simp add: analyzeFile_locals_def Let_def case_prod_beta)

lemma locals_syncScore:
  "l_syncScore (analyzeFile_locals sha256 e reg buffer mimeType) =
     syncScore_of (getMediaCategory mimeType)
       (visualScore_of (getMediaCategory mimeType) (length buffer) (analyzeBuffer buffer))
       (fst (audioScores (getMediaCategory mimeType) buffer (analyzeBuffer buffer)))
       (headerAnomaly (analyzeBuffer buffer)) (random e)"
  by (simp add: analyzeFile_locals_def Let_def case_prod_beta)


lemma locals_knownEntry:
  "l_knownEntry (analyzeFile_locals sha256 e reg buffer mimeType) = reg (computeHash sha256 buffer)"
  by (simp add: analyzeFile_locals_def Let_def case_prod_beta)

lemma locals_weightedScore:
  "l_weightedScore (analyzeFile_locals sha256 e reg buffer mimeType) =
     weightedScore_of (getMediaCategory mimeType)
       (l_visualScore (analyzeFile_locals sha256 e reg buffer mimeType))
       (l_audioScore (analyzeFile_locals sha256 e reg buffer mimeType))
       (l_spectralAnomaly (analyzeFile_locals sha256 e reg buffer mimeType))
       (l_syncScore (analyzeFile_locals sha256 e reg buffer mimeType))
       (headerAnomaly (analyzeBuffer buffer))
       (reg (computeHash sha256 buffer) \<noteq> None)"
  by (simp add: analyzeFile_locals_def Let_def case_prod_beta)

lemma locals_verdict:
  "l_verdict (analyzeFile_locals sha256 e reg buffer mimeType) =
     fst (classify (l_weightedScore (analyzeFile_locals sha256 e reg buffer mimeType)))"
  by (simp add: analyzeFile_locals_def Let_def case_prod_beta)

lemma locals_confidence:
  "l_confidence (analyzeFile_locals sha256 e reg buffer mimeType) =
     snd (classify (l_weightedScore (analyzeFile_locals sha256 e reg buffer mimeType)))"
  by (simp add: analyzeFile_locals_def Let_def case_prod_beta)

lemma result_fields:
  "verdict (fst (analyzeFile sha256 e reg buffer fileName mimeType)) =
     l_verdict (analyzeFile_locals sha256 e reg buffer mimeType)"
  "confidence (fst (analyzeFile sha256 e reg buffer fileName mimeType)) =
     l_confidence (analyzeFile_locals sha256 e reg buffer mimeType)"
  "v_score (visual (fst (analyzeFile sha256 e reg buffer fileName mimeType))) =
     l_visualScore (analyzeFile_locals sha256 e reg buffer mimeType)"
  "a_score (audio (fst (analyzeFile sha256 e reg buffer fileName mimeType))) =
     l_audioScore (analyzeFile_locals sha256 e reg buffer mimeType)"
  "spectralAnomaly (audio (fst (analyzeFile sha256 e reg buffer fileName mimeType))) =
     l_spectralAnomaly (analyzeFile_locals sha256 e reg buffer mimeType)"
  "syncScore (crossModal (fst (analyzeFile sha256 e reg buffer fileName mimeType))) =
     l_syncScore (analyzeFile_locals sha256 e reg buffer mimeType)"
  "found (blockchain (fst (analyzeFile sha256 e reg buffer fileName mimeType))) =
     l_provenanceFound (analyzeFile_locals sha256 e reg buffer mimeType)"
  by (simp_all add: analyzeFile_def Let_def)


lemma result_artifacts:
  "artifacts (visual (fst (analyzeFile sha256 e reg buffer fileName mimeType))) =
     artifacts_of (l_verdict (analyzeFile_locals sha256 e reg buffer mimeType))
       (l_visualScore (analyzeFile_locals sha256 e reg buffer mimeType))
       (headerAnomaly (analyzeBuffer buffer)) (entropy (analyzeBuffer buffer))"
  by (simp add: analyzeFile_def Let_def locals_stats)

lemma result_registry:
  "snd (analyzeFile sha256 e reg buffer fileName mimeType) =
     (if l_verdict (analyzeFile_locals sha256 e reg buffer mimeType) = Authentic
      then reg(computeHash sha256 buffer \<mapsto>
             \<lparr> uploader = ''DeepTrust User'', registeredAt = isoTime e \<rparr>)
      else reg)"
  by (simp add: analyzeFile_def Let_def locals_fileHash)

lemma classify_Num:
  "classify (Num w) =
     (if w < 0.25 then (Authentic, Num (min 0.99 (max 0.4 (0.85 + (0.25 - w) * 0.4))))
      else if w > 0.5 then (Manipulated, Num (min 0.99 (max 0.4 (0.7 + (w - 0.5) * 0.5))))
      else (Suspicious, Num (min 0.99 (max 0.4 (0.5 + \<bar>w - 0.375\<bar> * 0.3)))))"
  by (simp add: classify_def)

lemma classify_NaN: "classify NaN = (Suspicious, NaN)"
  by (simp add: classify_def)

section \<open>The generator on doubles\<close>

text \<open>
  While the exact value \<open>rng * 1103515245 + 12345\<close> stays below \<open>2^53\<close> no rounding
  happens and the step is the exact recurrence; the state always stays below \<open>2^31\<close>.
\<close>

lemma excess_bits_small: "n < 2 ^ 53 \<Longrightarrow> excess_bits n = 0"
  by (simp add: excess_bits.simps)

lemma round_double_small: "n < 2 ^ 53 \<Longrightarrow> round_double n = n"
  by (simp add: round_double_def excess_bits_small)

lemma lcg_exact_small:
  assumes "r * 1103515245 + 12345 < 2 ^ 53"
  shows "lcg (Some r) = exact_lcg r"
proof -
  from assms have "r * 1103515245 < 2 ^ 53" by simp
  then have "round_double (r * 1103515245) = r * 1103515245" by (rule round_double_small)
  with assms show ?thesis by (simp add: lcg_def exact_lcg_def round_double_small)
qed

lemma lcg_bound: "lcg rng < 2 ^ 31"
  by (simp add: lcg_def split: option.split)

lemma nextRandom_sample:
  "nextRandom rng = (Some (lcg rng), real (lcg rng) / (2 ^ 31 - 1))"
  by (simp add: nextRandom_def Let_def)

section \<open>The example inputs evaluated\<close>

lemma example_categories:
  "getMediaCategory ''image/png'' = Image"
  "getMediaCategory ''video/mp4'' = Video"
  "getMediaCategory ''audio/wav'' = Audio"
  "getMediaCategory ''application/pdf'' = Unknown"
  by (simp_all add: getMediaCategory_def)

lemma example_stats:
  "headerAnomaly (analyzeBuffer [0x01]) = Num 0"
  "uniformity (analyzeBuffer [0x01]) = 1 / 256"
  by (simp_all add: analyzeBuffer_def Let_def anomalyCount_def js_div_def)

lemma example_image_score:
  "l_weightedScore (analyzeFile_locals sha256 e reg [0x01] ''image/png'') =
     Num ((1 - 1 / 6220800) * 0.1 * 0.6 + (if reg (computeHash sha256 [0x01]) \<noteq> None then - 0.15 else 0.1))"
  by (simp add: locals_weightedScore locals_visualScore example_categories example_stats
      visualScore_of_def weightedScore_of_def)

lemma example_image_authentic:
  "l_verdict (analyzeFile_locals sha256 e reg [0x01] ''image/png'') = Authentic"
  by (simp add: locals_verdict example_image_score classify_Num)

lemma ex_seed: "parseInt16 (take 8 (computeHash sha256_examples [0x61, 0x62, 0x63])) = Some 3128432319"
  by (simp add: computeHash_def sha256_examples_def hex_byte_def parseInt16_def hexval_def List.map_filter_def)

lemma lcg_values:
  "lcg (Some 3128432319) = 315232768"
  "lcg (Some 3128432361) = 1565716480"
  "lcg (Some 3128432418) = 41575936"
  by (simp_all add: lcg_def round_double_def excess_bits.simps Let_def)

section \<open>Determinism\<close>




section \<open>The empty buffer\<close>

text \<open>
  Claim C2. For the empty buffer the extraction returns entropy \<open>0\<close> and uniformity
  \<open>0\<close>, and \<open>calculateVariance\<close> returns \<open>0\<close> by its guard; the header anomaly is the
  unguarded quotient \<open>0 / 0\<close>, which is \<open>NaN\<close> and not the \<open>0\<close> of the claim, and it makes
  the visual score of an empty image, the audio score of an empty audio file and the
  confidence \<open>NaN\<close> as well.
\<close>

theorem empty_buffer_statistics:
  "analyzeBuffer [] = \<lparr> entropy = 0, uniformity = 0, headerAnomaly = NaN \<rparr>
   \<and> calculateVariance [] = 0
   \<and> v_score (visual (fst (analyzeFile sha256 e reg [] fileName ''image/png''))) = NaN
   \<and> a_score (audio (fst (analyzeFile sha256 e reg [] fileName ''audio/wav''))) = NaN
   \<and> confidence (fst (analyzeFile sha256 e reg [] fileName ''image/png'')) = NaN"
  by (simp add: analyzeBuffer_empty calculateVariance_def result_fields locals_visualScore
      locals_audioScore locals_confidence locals_weightedScore example_categories
      visualScore_of_def audioScores_def weightedScore_of_def classify_NaN)

text \<open>
  Claim C4. The range invariants fail at the empty buffer: declared as a video, its
  header anomaly, visual score, audio score, spectral anomaly and sync score are outside
  \<open>[0, 1]\<close> and its confidence is outside \<open>[0.40, 0.99]\<close> (each is \<open>NaN\<close>); declared as
  an image its confidence is outside \<open>[0.40, 0.99]\<close> too.
\<close>

theorem empty_buffer_ranges:
  "\<not> in_range 0 1 (headerAnomaly (l_stats (analyzeFile_locals sha256 e reg [] ''video/mp4'')))
   \<and> \<not> in_range 0 1 (v_score (visual (fst (analyzeFile sha256 e reg [] fileName ''video/mp4''))))
   \<and> \<not> in_range 0 1 (a_score (audio (fst (analyzeFile sha256 e reg [] fileName ''video/mp4''))))
   \<and> \<not> in_range 0 1 (spectralAnomaly (audio (fst (analyzeFile sha256 e reg [] fileName ''video/mp4''))))
   \<and> \<not> in_range 0 1 (syncScore (crossModal (fst (analyzeFile sha256 e reg [] fileName ''video/mp4''))))
   \<and> \<not> in_range 0.4 0.99 (confidence (fst (analyzeFile sha256 e reg [] fileName ''video/mp4'')))
   \<and> \<not> in_range 0.4 0.99 (confidence (fst (analyzeFile sha256 e reg [] fileName ''image/png'')))"
  by (simp add: analyzeBuffer_empty calculateVariance_def result_fields locals_stats
      locals_visualScore locals_audioScore locals_spectralAnomaly locals_syncScore
      locals_confidence locals_weightedScore example_categories
      visualScore_of_def audioScores_def syncScore_of_def weightedScore_of_def classify_NaN
      in_range_def)

section \<open>The range invariants away from the empty buffer\<close>

text \<open>
  The entropy loop adds \<open>- p * log2 p\<close> over the non-empty buckets, \<open>p\<close> the share of
  the bucket in the window. The buckets sum to the window length, so the shares sum to
  one, and \<open>ln x \<le> x - 1\<close> bounds the sum by the logarithm of the number of buckets.
\<close>

lemma histogram_length: "length (histogram bs f) = length f"
  by (induction bs arbitrary: f) simp_all

lemma histogram_sum:
  "length f = 256 \<Longrightarrow> sum_list (histogram bs f) = sum_list f + length bs"
proof (induction bs arbitrary: f)
  case Nil
  then show ?case by simp
next
  case (Cons b bs)
  have lt: "unat b < length f"
    using Cons.prems unsigned_less [of b, where ?'a = nat] by simp
  have "sum_list (f[unat b := f ! unat b + 1]) = sum_list f + 1"
    using lt by (simp add: sum_list_update)
  moreover have "length (f[unat b := f ! unat b + 1]) = 256"
    using Cons.prems by simp
  ultimately show ?case
    using Cons.IH [of "f[unat b := f ! unat b + 1]"] by simp
qed

lemma foldl_entropy:
  "foldl (\<lambda>e c. if c > 0 then e - h c else e) a xs
     = a + (\<Sum>c\<leftarrow>xs. if c > (0::nat) then - h c else (0::real))"
  by (induction xs arbitrary: a) simp_all

lemma shannon_sum:
  "shannon freq len =
     (\<Sum>c\<leftarrow>freq. if c > 0 then - ((real c / real len) * log 2 (real c / real len)) else 0)"
  unfolding shannon_def by (simp add: foldl_entropy)

lemma entropy_term_upper:
  assumes "0 < len" and "0 < n"
  shows "(if c > 0 then - ((real c / real len) * log 2 (real c / real len)) else 0)
           \<le> (real c / real len) * log 2 (real n) + (1 / real n - real c / real len) / ln 2"
proof (cases "c > 0")
  case False
  then show ?thesis using assms by simp
next
  case True
  define p where "p = real c / real len"
  have p: "0 < p" using True assms by (simp add: p_def)
  have n: "0 < real n" using assms by simp
  have ln2: "0 < ln (2::real)" by simp
  have "ln (1 / (real n * p)) \<le> 1 / (real n * p) - 1"
    using p n by (intro ln_le_minus_one) simp
  moreover have "ln (1 / (real n * p)) = - ln (real n) - ln p"
    using p n by (simp add: ln_div ln_mult)
  ultimately have "- ln (real n) - ln p \<le> 1 / (real n * p) - 1" by simp
  then have "p * (- ln (real n) - ln p) \<le> p * (1 / (real n * p) - 1)"
    using p by (intro mult_left_mono) simp_all
  also have "p * (1 / (real n * p) - 1) = 1 / real n - p"
    using p n by (simp add: field_simps)
  finally have "- (p * ln p) \<le> p * ln (real n) + (1 / real n - p)"
    by (simp add: algebra_simps)
  then have "- (p * ln p) / ln 2 \<le> (p * ln (real n) + (1 / real n - p)) / ln 2"
    using ln2 by (intro divide_right_mono) simp_all
  then have "- (p * log 2 p) \<le> p * log 2 (real n) + (1 / real n - p) / ln 2"
    by (simp add: log_def add_divide_distrib)
  then show ?thesis using True by (simp add: p_def)
qed

lemma entropy_term_lower:
  assumes "c \<le> len"
  shows "0 \<le> (if c > 0 then - ((real c / real len) * log 2 (real c / real len)) else 0)"
proof (cases "c > 0")
  case False
  then show ?thesis by simp
next
  case True
  then have "0 < real c / real len" and "real c / real len \<le> 1"
    using assms by simp_all
  then have "log 2 (real c / real len) \<le> 0"
    by simp
  with \<open>0 < real c / real len\<close>
  have "(real c / real len) * log 2 (real c / real len) \<le> 0"
    by (intro mult_nonneg_nonpos) simp_all
  then show ?thesis using True by simp
qed

lemma sum_list_affine:
  "(\<Sum>c\<leftarrow>xs. real c * k + d) = real (sum_list xs) * k + real (length xs) * d"
  by (induction xs) (simp_all add: algebra_simps)

lemma shannon_upper:
  assumes "0 < len" and "freq \<noteq> []" and "sum_list freq = len"
  shows "shannon freq len \<le> log 2 (real (length freq))"
proof -
  let ?n = "length freq"
  have n: "0 < ?n" using assms(2) by simp
  have "shannon freq len
          \<le> (\<Sum>c\<leftarrow>freq. (real c / real len) * log 2 (real ?n) + (1 / real ?n - real c / real len) / ln 2)"
    unfolding shannon_sum by (intro sum_list_mono entropy_term_upper assms(1) n)
  also have "\<dots> = (\<Sum>c\<leftarrow>freq. real c * (log 2 (real ?n) / real len - 1 / (real len * ln 2))
                       + 1 / (real ?n * ln 2))"
    by (intro arg_cong [where f = sum_list] map_cong refl) (simp add: field_simps)
  also have "\<dots> = real (sum_list freq) * (log 2 (real ?n) / real len - 1 / (real len * ln 2))
                     + real ?n * (1 / (real ?n * ln 2))"
    by (rule sum_list_affine)
  also have "\<dots> = log 2 (real ?n)"
    using assms(1) n by (simp add: assms(3) field_simps)
  finally show ?thesis .
qed

lemma shannon_lower:
  assumes "sum_list freq = len"
  shows "0 \<le> shannon freq len"
  unfolding shannon_sum
proof (rule sum_list_nonneg)
  fix x
  assume "x \<in> set (map (\<lambda>c. if c > 0 then - ((real c / real len) * log 2 (real c / real len)) else 0) freq)"
  then obtain c where c: "c \<in> set freq"
    and x: "x = (if c > 0 then - ((real c / real len) * log 2 (real c / real len)) else 0)"
    by auto
  from c have "c \<le> sum_list freq" by (rule member_le_sum_list) simp
  then have "c \<le> len" using assms by simp
  then show "0 \<le> x" unfolding x by (rule entropy_term_lower)
qed

lemma entropy_unit:
  assumes "buffer \<noteq> []"
  shows "0 \<le> entropy (analyzeBuffer buffer) \<and> entropy (analyzeBuffer buffer) \<le> 1"
proof -
  let ?len = "min (length buffer) 65536"
  let ?freq = "histogram (take ?len buffer) (replicate 256 0)"
  have len: "0 < ?len" using assms by simp
  have sum: "sum_list ?freq = ?len"
    by (simp add: histogram_sum)
  have n: "length ?freq = 256"
    by (simp add: histogram_length)
  then have ne: "?freq \<noteq> []" by auto
  have "shannon ?freq ?len \<le> log 2 (real (length ?freq))"
    using len ne sum by (rule shannon_upper)
  also have "\<dots> = 8"
    using log2_of_power_eq [of 256 8] by (simp add: n)
  finally have up: "shannon ?freq ?len \<le> 8" .
  have low: "0 \<le> shannon ?freq ?len"
    using sum by (rule shannon_lower)
  have "entropy (analyzeBuffer buffer) = shannon ?freq ?len / 8"
    by (simp add: analyzeBuffer_def Let_def)
  with up low show ?thesis by simp
qed

lemma uniformity_unit:
  "0 \<le> uniformity (analyzeBuffer buffer) \<and> uniformity (analyzeBuffer buffer) \<le> 1"
proof -
  let ?fb = "take (min 4096 (length buffer)) buffer"
  have "card (set ?fb) \<le> card (UNIV :: byte set)"
    by (intro card_mono) simp_all
  also have "\<dots> = 256" by (simp add: card_word)
  finally have "real (card (set ?fb)) \<le> 256" by simp
  moreover have "uniformity (analyzeBuffer buffer) = real (card (set ?fb)) / 256"
    by (simp add: analyzeBuffer_def Let_def)
  ultimately show ?thesis by simp
qed

lemma in_range_Num: "in_range lo hi (Num x) \<longleftrightarrow> lo \<le> x \<and> x \<le> hi"
  by (simp add: in_range_def)

lemma visualScore_unit:
  assumes "headerAnomaly st = Num h"
  shows "in_range 0 1 (visualScore_of cat n st)"
  using assms by (cases cat) (simp_all add: visualScore_of_def Let_def in_range_Num)

lemma in_range_iff: "in_range lo hi X \<longleftrightarrow> (\<exists>x. X = Num x \<and> lo \<le> x \<and> x \<le> hi)"
  by (cases X) (simp_all add: in_range_def)

lemma clamp_range:
  fixes lo hi y :: real
  shows "lo \<le> hi \<Longrightarrow> lo \<le> min hi (max lo y) \<and> min hi (max lo y) \<le> hi"
  by auto

lemma syncScore_unit:
  "in_range 0 1 (syncScore_of cat (Num v) (Num a) (Num h) r)"
  by (cases cat) (simp_all add: syncScore_of_def Let_def in_range_Num)

lemma weightedScore_Num:
  "\<exists>w. weightedScore_of cat (Num v) (Num a) (Num s) (Num sy) (Num h) p = Num w"
  by (simp add: weightedScore_of_def)

lemma classify_confidence_range:
  "in_range 0.4 0.99 (snd (classify (Num w)))"
proof -
  have "snd (classify (Num w)) =
          Num (min 0.99 (max 0.4
            (if w < 0.25 then 0.85 + (0.25 - w) * 0.4
             else if w > 0.5 then 0.7 + (w - 0.5) * 0.5
             else 0.5 + \<bar>w - 0.375\<bar> * 0.3)))"
    by (simp add: classify_Num)
  then show ?thesis
    by (simp only: in_range_Num) (rule clamp_range, simp)
qed

lemma finite_ops:
  "X \<noteq> NaN \<Longrightarrow> Y \<noteq> NaN \<Longrightarrow> X + Y \<noteq> NaN"
  "X \<noteq> NaN \<Longrightarrow> Y \<noteq> NaN \<Longrightarrow> X - Y \<noteq> NaN"
  "X \<noteq> NaN \<Longrightarrow> Y \<noteq> NaN \<Longrightarrow> X * Y \<noteq> NaN"
  by (cases X; cases Y; simp)+

lemma in_range_finite: "in_range lo hi X \<Longrightarrow> X \<noteq> NaN"
  by (cases X) (simp_all add: in_range_def)

lemma clamp_min_max: "X \<noteq> NaN \<Longrightarrow> in_range 0 1 (Math_min (Num 1) (Math_max (Num 0) X))"
  by (cases X) (simp_all add: in_range_Num)

lemma clamp_max_min: "X \<noteq> NaN \<Longrightarrow> in_range 0 1 (Math_max (Num 0) (Math_min (Num 1) X))"
  by (cases X) (simp_all add: in_range_Num)

lemma clamp_finite: "X \<noteq> NaN \<Longrightarrow> Math_min (Num 1) (Math_max (Num 0) X) \<noteq> NaN"
  by (rule in_range_finite) (rule clamp_min_max)

lemma audioScore_unit:
  assumes "headerAnomaly st \<noteq> NaN"
  shows "in_range 0 1 (fst (audioScores cat buffer st))"
proof (cases "cat = Audio \<or> cat = Video")
  case False
  then show ?thesis by (simp add: audioScores_def in_range_Num)
next
  case True
  then show ?thesis
    by (simp only: audioScores_def Let_def if_True fst_conv)
      (intro clamp_min_max finite_ops assms jsnum.distinct)
qed

lemma spectralAnomaly_unit:
  assumes "headerAnomaly st \<noteq> NaN"
  shows "in_range 0 1 (snd (audioScores cat buffer st))"
proof (cases "cat = Audio \<or> cat = Video")
  case False
  then show ?thesis by (simp add: audioScores_def in_range_Num)
next
  case True
  then show ?thesis
    by (simp only: audioScores_def Let_def if_True snd_conv)
      (intro clamp_min_max clamp_finite finite_ops assms jsnum.distinct)
qed


lemma weightedScore_finite:
  assumes "buffer \<noteq> []"
  shows "\<exists>w. l_weightedScore (analyzeFile_locals sha256 e reg buffer mimeType) = Num w"
proof -
  let ?st = "analyzeBuffer buffer"
  let ?cat = "getMediaCategory mimeType"
  let ?L = "analyzeFile_locals sha256 e reg buffer mimeType"
  from assms obtain h where h: "headerAnomaly ?st = Num h"
    using headerAnomaly_nonempty by blast
  then have hf: "headerAnomaly ?st \<noteq> NaN" by simp
  have "in_range 0 1 (l_visualScore ?L)"
    unfolding locals_visualScore using h by (rule visualScore_unit)
  then obtain v where v: "l_visualScore ?L = Num v" unfolding in_range_iff by blast
  have "in_range 0 1 (l_audioScore ?L)"
    unfolding locals_audioScore using hf by (rule audioScore_unit)
  then obtain a where a: "l_audioScore ?L = Num a" unfolding in_range_iff by blast
  have "in_range 0 1 (l_spectralAnomaly ?L)"
    unfolding locals_spectralAnomaly using hf by (rule spectralAnomaly_unit)
  then obtain s where s: "l_spectralAnomaly ?L = Num s" unfolding in_range_iff by blast
  have "l_syncScore ?L = syncScore_of ?cat (Num v) (Num a) (Num h) (random e)"
    using v a h by (simp only: locals_syncScore locals_visualScore locals_audioScore)
  then have "in_range 0 1 (l_syncScore ?L)"
    by (simp only: syncScore_unit)
  then obtain sy where sy: "l_syncScore ?L = Num sy" unfolding in_range_iff by blast
  have "l_weightedScore ?L =
          weightedScore_of ?cat (Num v) (Num a) (Num s) (Num sy) (Num h)
            (reg (computeHash sha256 buffer) \<noteq> None)"
    by (simp only: locals_weightedScore v a s sy h)
  then show ?thesis
    using weightedScore_Num by metis
qed

text \<open>
  For every non-empty buffer, whatever its declared type, the registry and the
  environment, the three statistics and the four scores lie in \<open>[0, 1]\<close> and the
  confidence in \<open>[0.40, 0.99]\<close>: claim C4 breaks at the empty buffer only.
\<close>

proposition nonempty_ranges:
  assumes "buffer \<noteq> []"
  shows "in_range 0 1 (Num (entropy (analyzeBuffer buffer)))"
    and "in_range 0 1 (Num (uniformity (analyzeBuffer buffer)))"
    and "in_range 0 1 (headerAnomaly (analyzeBuffer buffer))"
    and "in_range 0 1 (v_score (visual (fst (analyzeFile sha256 e reg buffer fileName mimeType))))"
    and "in_range 0 1 (a_score (audio (fst (analyzeFile sha256 e reg buffer fileName mimeType))))"
    and "in_range 0 1 (spectralAnomaly (audio (fst (analyzeFile sha256 e reg buffer fileName mimeType))))"
    and "in_range 0 1 (syncScore (crossModal (fst (analyzeFile sha256 e reg buffer fileName mimeType))))"
    and "in_range 0.4 0.99 (confidence (fst (analyzeFile sha256 e reg buffer fileName mimeType)))"
proof -
  let ?st = "analyzeBuffer buffer"
  let ?cat = "getMediaCategory mimeType"
  let ?L = "analyzeFile_locals sha256 e reg buffer mimeType"
  from assms obtain h where h: "headerAnomaly ?st = Num h"
    using headerAnomaly_nonempty by blast
  then have hu: "0 \<le> h \<and> h \<le> 1" by (rule headerAnomaly_unit)
  from h have hf: "headerAnomaly ?st \<noteq> NaN" by simp
  have v: "in_range 0 1 (l_visualScore ?L)"
    unfolding locals_visualScore using h by (rule visualScore_unit)
  have a: "in_range 0 1 (l_audioScore ?L)"
    unfolding locals_audioScore using hf by (rule audioScore_unit)
  have s: "in_range 0 1 (l_spectralAnomaly ?L)"
    unfolding locals_spectralAnomaly using hf by (rule spectralAnomaly_unit)
  from v obtain v' where v': "l_visualScore ?L = Num v'" unfolding in_range_iff by blast
  from a obtain a' where a': "l_audioScore ?L = Num a'" unfolding in_range_iff by blast
  from s obtain s' where s': "l_spectralAnomaly ?L = Num s'" unfolding in_range_iff by blast
  have "l_syncScore ?L = syncScore_of ?cat (Num v') (Num a') (Num h) (random e)"
    using v' a' h by (simp only: locals_syncScore locals_visualScore locals_audioScore)
  then have sy: "in_range 0 1 (l_syncScore ?L)"
    by (simp only: syncScore_unit)
  then obtain sy' where sy': "l_syncScore ?L = Num sy'" unfolding in_range_iff by blast
  have "l_weightedScore ?L =
          weightedScore_of ?cat (Num v') (Num a') (Num s') (Num sy') (Num h)
            (reg (computeHash sha256 buffer) \<noteq> None)"
    by (simp only: locals_weightedScore v' a' s' sy' h)
  then obtain w where w: "l_weightedScore ?L = Num w"
    using weightedScore_Num by metis
  show "in_range 0 1 (Num (entropy ?st))"
    using entropy_unit [OF assms] by (simp add: in_range_Num)
  show "in_range 0 1 (Num (uniformity ?st))"
    using uniformity_unit [of buffer] by (simp add: in_range_Num)
  show "in_range 0 1 (headerAnomaly ?st)"
    using h hu by (simp add: in_range_Num)
  show "in_range 0 1 (v_score (visual (fst (analyzeFile sha256 e reg buffer fileName mimeType))))"
    using v by (simp only: result_fields)
  show "in_range 0 1 (a_score (audio (fst (analyzeFile sha256 e reg buffer fileName mimeType))))"
    using a by (simp only: result_fields)
  show "in_range 0 1 (spectralAnomaly (audio (fst (analyzeFile sha256 e reg buffer fileName mimeType))))"
    using s by (simp only: result_fields)
  show "in_range 0 1 (syncScore (crossModal (fst (analyzeFile sha256 e reg buffer fileName mimeType))))"
    using sy by (simp only: result_fields)
  show "in_range 0.4 0.99 (confidence (fst (analyzeFile sha256 e reg buffer fileName mimeType)))"
    using classify_confidence_range [of w] by (simp only: result_fields locals_confidence w)
qed

section \<open>Verdict and confidence\<close>

text \<open>
  Claim C5. The verdict of every call is read off the weighted score: below \<open>0.25\<close> it
  is authentic, above \<open>0.5\<close> manipulated, otherwise (also when the score is \<open>NaN\<close>, where
  both comparisons are false) suspicious. A score of exactly \<open>0.25\<close> is suspicious,
  \<open>0.2499\<close> is authentic and \<open>0.5001\<close> is manipulated.
\<close>

theorem verdict_thresholds:
  "verdict (fst (analyzeFile sha256 e reg buffer fileName mimeType)) =
     (case l_weightedScore (analyzeFile_locals sha256 e reg buffer mimeType) of
        Num w \<Rightarrow> if w < 0.25 then Authentic else if w > 0.5 then Manipulated else Suspicious
      | NaN \<Rightarrow> Suspicious)
   \<and> fst (classify (Num 0.25)) = Suspicious
   \<and> fst (classify (Num 0.2499)) = Authentic
   \<and> fst (classify (Num 0.5001)) = Manipulated"
  by (simp add: result_fields locals_verdict classify_Num classify_NaN split: jsnum.split)

text \<open>
  At a finite weighted score \<open>w\<close> the returned confidence is the specification's
  formula for the returned verdict, clamped to \<open>[0.40, 0.99]\<close>; that is the case for
  every non-empty buffer. At a weighted score \<open>NaN\<close> formula and clamp give \<open>NaN\<close>.
\<close>

lemma confidence_formula:
  "confidence (fst (analyzeFile sha256 e reg buffer fileName mimeType)) =
     (case l_weightedScore (analyzeFile_locals sha256 e reg buffer mimeType) of
        Num w \<Rightarrow> Num (confidence_spec (verdict (fst (analyzeFile sha256 e reg buffer fileName mimeType))) w)
      | NaN \<Rightarrow> NaN)"
  by (simp add: result_fields locals_verdict locals_confidence classify_Num classify_NaN
      confidence_spec_def split: jsnum.split)

lemma confidence_nonempty:
  assumes "buffer \<noteq> []"
  shows "\<exists>w. l_weightedScore (analyzeFile_locals sha256 e reg buffer mimeType) = Num w
           \<and> confidence (fst (analyzeFile sha256 e reg buffer fileName mimeType)) =
               Num (confidence_spec (verdict (fst (analyzeFile sha256 e reg buffer fileName mimeType))) w)"
proof -
  from assms obtain w where w: "l_weightedScore (analyzeFile_locals sha256 e reg buffer mimeType) = Num w"
    using weightedScore_finite by blast
  then show ?thesis
    using confidence_formula [of sha256 e reg buffer fileName mimeType] by simp
qed

lemma empty_weightedScore:
  "l_weightedScore (analyzeFile_locals sha256 e reg [] mimeType) = NaN"
  by (cases "getMediaCategory mimeType")
    (simp_all add: locals_weightedScore locals_visualScore locals_audioScore
      locals_spectralAnomaly locals_syncScore analyzeBuffer_empty calculateVariance_def
      visualScore_of_def audioScores_def syncScore_of_def weightedScore_of_def)

text \<open>
  Claim C7. The confidence is the per-verdict formula clamped to \<open>[0.40, 0.99]\<close>. The
  code breaks it at the empty buffer: whatever the declared type, the weighted score is
  \<open>NaN\<close>, the verdict is suspicious, and the returned confidence
  \<open>0.50 + |NaN - 0.375| * 0.3\<close> stays \<open>NaN\<close> through \<^verbatim>\<open>Math.min\<close> and \<^verbatim>\<open>Math.max\<close>: it is
  not a value of \<open>[0.40, 0.99]\<close>.
\<close>

theorem empty_buffer_confidence:
  "verdict (fst (analyzeFile sha256 e reg [] fileName mimeType)) = Suspicious
   \<and> confidence (fst (analyzeFile sha256 e reg [] fileName mimeType)) = NaN
   \<and> \<not> in_range 0.4 0.99 (confidence (fst (analyzeFile sha256 e reg [] fileName mimeType)))"
  by (simp add: result_fields locals_verdict locals_confidence empty_weightedScore classify_NaN
      in_range_def)

section \<open>Artifacts\<close>

lemma header_severity:
  assumes "headerAnomaly (analyzeBuffer buffer) > Num 0.4"
  shows "Math_min (Num 1) (headerAnomaly (analyzeBuffer buffer)) = headerAnomaly (analyzeBuffer buffer)"
proof (cases "headerAnomaly (analyzeBuffer buffer)")
  case (Num h)
  then have "h \<le> 1" using headerAnomaly_unit by blast
  with Num show ?thesis by simp
next
  case NaN
  with assms show ?thesis by simp
qed

text \<open>
  Claim C9. The artifact list of every call is empty for an authentic verdict and
  otherwise consists of exactly the four conditional entries of the specification, in
  order: jawline when \<open>visual > 0.3\<close> (severity \<open>min(1, visual * 1.2)\<close>), eye reflection
  when \<open>visual > 0.4\<close> (severity \<open>min(1, visual * 0.8)\<close>), file header when
  \<open>headerAnomaly > 0.4\<close> (severity \<open>headerAnomaly\<close>), compression when
  \<open>entropy > 0.95\<close> (severity \<open>min(1, (entropy - 0.9) * 5)\<close>).
\<close>

theorem artifacts_as_specified:
  "artifacts (visual (fst (analyzeFile sha256 e reg buffer fileName mimeType))) =
     artifacts_spec (verdict (fst (analyzeFile sha256 e reg buffer fileName mimeType)))
       (v_score (visual (fst (analyzeFile sha256 e reg buffer fileName mimeType))))
       (headerAnomaly (analyzeBuffer buffer)) (entropy (analyzeBuffer buffer))"
  by (simp add: result_artifacts result_fields artifacts_of_def artifacts_spec_def header_severity)

section \<open>Provenance\<close>




















lemma unknown_scores:
  assumes "getMediaCategory mimeType = Unknown"
  shows "l_visualScore (analyzeFile_locals sha256 e reg buffer mimeType) = Num 0.05"
    and "l_audioScore (analyzeFile_locals sha256 e reg buffer mimeType) = Num 0.05"
    and "l_weightedScore (analyzeFile_locals sha256 e reg buffer mimeType) =
           Num 0.05 * Num 0.6 + headerAnomaly (analyzeBuffer buffer) * Num 0.2
             + Num (if reg (computeHash sha256 buffer) \<noteq> None then - 0.15 else 0.1)"
  using assms
  by (simp_all add: locals_weightedScore locals_visualScore locals_audioScore
      visualScore_of_def audioScores_def weightedScore_of_def)




text \<open>
  Claim C3, as amended. Registration is an unconditional write: a call with an authentic
  verdict maps the content hash to the fixed uploader label and the time of this call,
  whatever the registry held for that hash before; every other entry is unchanged, and
  a call with another verdict leaves the registry as it was.
\<close>

theorem registry_write:
  "snd (analyzeFile sha256 e reg buffer fileName mimeType) =
     (if verdict (fst (analyzeFile sha256 e reg buffer fileName mimeType)) = Authentic
      then reg(computeHash sha256 buffer \<mapsto>
             \<lparr> uploader = ''DeepTrust User'', registeredAt = isoTime e \<rparr>)
      else reg)"
  by (simp add: result_registry result_fields)

text \<open>
  The claim as stated fails: a one-byte image is analysed to an authentic verdict in
  January and again, authentic again, in June; the entry of its hash then carries the
  June timestamp, not the January one.
\<close>

theorem registration_overwrites:
  "verdict (fst (analyzeFile sha256_examples (env_example 0 ''2025-06-01T00:00:00.000Z'')
      (snd (analyzeFile sha256_examples (env_example 0 ''2025-01-01T00:00:00.000Z'')
         Map.empty [0x01] ''a.png'' ''image/png'')) [0x01] ''a.png'' ''image/png'')) = Authentic
   \<and> snd (analyzeFile sha256_examples (env_example 0 ''2025-01-01T00:00:00.000Z'')
         Map.empty [0x01] ''a.png'' ''image/png'') (computeHash sha256_examples [0x01])
       = Some \<lparr> uploader = ''DeepTrust User'', registeredAt = ''2025-01-01T00:00:00.000Z'' \<rparr>
   \<and> snd (analyzeFile sha256_examples (env_example 0 ''2025-06-01T00:00:00.000Z'')
      (snd (analyzeFile sha256_examples (env_example 0 ''2025-01-01T00:00:00.000Z'')
         Map.empty [0x01] ''a.png'' ''image/png'')) [0x01] ''a.png'' ''image/png'')
       (computeHash sha256_examples [0x01])
       = Some \<lparr> uploader = ''DeepTrust User'', registeredAt = ''2025-06-01T00:00:00.000Z'' \<rparr>"
  by (simp add: result_fields result_registry example_image_authentic env_example_def)

section \<open>The generators and the exact recurrence\<close>

text \<open>
  Claim C8. The generators share one step, \<open>nextRandom\<close>, seeded with the hash seed,
  the hash seed plus 42 and the hash seed plus 99, and each sample is the state divided
  by \<open>2^31 - 1\<close>; but the step is not the exact recurrence. For the three bytes of \<open>abc\<close>
  the hash seed is \<open>0xba7816bf\<close>, and the first state of the heatmap, the waveform and
  the correlation generator each differs from the exact recurrence's, as does the first
  sample of the heatmap.
\<close>

theorem generator_not_exact_lcg:
  "l_hashSeed (analyzeFile_locals sha256_examples e reg [0x61, 0x62, 0x63] mimeType) = Some 3128432319
   \<and> fst (nextRandom (Some 3128432319)) = Some 315232768
   \<and> exact_lcg 3128432319 = 315232652
   \<and> snd (nextRandom (Some 3128432319)) \<noteq> real (exact_lcg 3128432319) / (2 ^ 31 - 1)
   \<and> fst (nextRandom (map_option (\<lambda>s. s + 42) (Some 3128432319))) = Some 1565716480
   \<and> exact_lcg (3128432319 + 42) = 1565716334
   \<and> fst (nextRandom (map_option (\<lambda>s. s + 99) (Some 3128432319))) = Some 41575936
   \<and> exact_lcg (3128432319 + 99) = 41575859"
  by (simp add: locals_hashSeed ex_seed nextRandom_def lcg_values exact_lcg_def Let_def)

section \<open>Unknown category\<close>

text \<open>
  Claim C10. For a non-empty buffer whose MIME type has category unknown, the visual and
  audio scores are \<open>0.05\<close>, the weighted score is
  \<open>0.05 * 0.6 + headerAnomaly * 0.2 + provenanceAdjustment\<close>, which is at most \<open>0.33\<close>, and
  the verdict is not manipulated.
\<close>

theorem unknown_never_manipulated:
  assumes "buffer \<noteq> []" and "getMediaCategory mimeType = Unknown"
  shows "v_score (visual (fst (analyzeFile sha256 e reg buffer fileName mimeType))) = Num 0.05
       \<and> a_score (audio (fst (analyzeFile sha256 e reg buffer fileName mimeType))) = Num 0.05
       \<and> (\<exists>h. headerAnomaly (analyzeBuffer buffer) = Num h
              \<and> l_weightedScore (analyzeFile_locals sha256 e reg buffer mimeType) =
                  Num (0.05 * 0.6 + h * 0.2
                         + (if reg (computeHash sha256 buffer) \<noteq> None then - 0.15 else 0.1)))
       \<and> l_weightedScore (analyzeFile_locals sha256 e reg buffer mimeType) \<le> Num 0.33
       \<and> verdict (fst (analyzeFile sha256 e reg buffer fileName mimeType)) \<noteq> Manipulated"
proof -
  from assms(1) obtain h where h: "headerAnomaly (analyzeBuffer buffer) = Num h"
    using headerAnomaly_nonempty by blast
  then have h1: "h \<le> 1" using headerAnomaly_unit by blast
  let ?adj = "if reg (computeHash sha256 buffer) \<noteq> None then - 0.15 else (0.1::real)"
  have ws: "l_weightedScore (analyzeFile_locals sha256 e reg buffer mimeType) =
              Num (0.05 * 0.6 + h * 0.2 + ?adj)"
    by (simp add: unknown_scores(3) [OF assms(2)] h)
  have le: "0.05 * 0.6 + h * 0.2 + ?adj \<le> 0.33"
    using h1 by simp
  have "verdict (fst (analyzeFile sha256 e reg buffer fileName mimeType)) \<noteq> Manipulated"
    using le by (simp add: result_fields locals_verdict ws classify_Num)
  moreover have "l_weightedScore (analyzeFile_locals sha256 e reg buffer mimeType) \<le> Num 0.33"
    unfolding ws using le by simp
  ultimately show ?thesis
    using h ws by (simp add: result_fields unknown_scores(1,2) [OF assms(2)])
qed

text \<open>The claim at a one-byte buffer declared as \<open>application/pdf\<close>.\<close>

theorem unknown_never_manipulated_witness:
  "[0x01 :: byte] \<noteq> [] \<and> getMediaCategory ''application/pdf'' = Unknown
   \<and> verdict (fst (analyzeFile sha256_examples (env_example 0 ''2025-01-01T00:00:00.000Z'')
         Map.empty [0x01] ''a.pdf'' ''application/pdf'')) \<noteq> Manipulated"
  using unknown_never_manipulated [of "[0x01]" "''application/pdf''" sha256_examples
      "env_example 0 ''2025-01-01T00:00:00.000Z''" Map.empty "''a.pdf''"]
  by (simp add: example_categories)

end
